theory Spec2Isabelle
  imports Main
begin

section \<open>The session router of the chess MCP server\<close>

text \<open>
  A shallow embedding of \<^verbatim>\<open>lib/mcp/header.ts\<close>, \<^verbatim>\<open>lib/mcp/uuid.ts\<close>, the middleware class
  \<^verbatim>\<open>McpServerMiddleware\<close> and \<^verbatim>\<open>lib/store.ts\<close>.

  A JavaScript string is a \<^typ>\<open>string\<close>: one list element per code unit. A value of type
  \<^verbatim>\<open>string | undefined\<close> is a \<^typ>\<open>string option\<close>. JavaScript tests such a value for
  truthiness (\<^verbatim>\<open>if (sessionId)\<close>, \<^verbatim>\<open>!id\<close>): \<^verbatim>\<open>undefined\<close> and the empty string are
  falsy, every other string is truthy.
\<close>

fun truthy :: "string option \<Rightarrow> bool" where
  "truthy None = False"
| "truthy (Some s) = (s \<noteq> [])"

subsection \<open>JavaScript objects\<close>

text \<open>
  A property read \<^verbatim>\<open>obj[name]\<close> follows the prototype chain. An object created by an object
  literal (\<^verbatim>\<open>{}\<close>), as Node creates the headers of a request and as the middleware creates
  its registry, has the prototype \<^verbatim>\<open>Object.prototype\<close>: for a name that is not an own
  property, the read yields the member of \<^verbatim>\<open>Object.prototype\<close> of that name when there is
  one (a function, or for \<^verbatim>\<open>__proto__\<close> the prototype object itself: all of them truthy,
  none of them a string, an array or a transport), and \<^verbatim>\<open>undefined\<close> otherwise. Reading a
  property of \<^verbatim>\<open>undefined\<close> throws a \<^verbatim>\<open>TypeError\<close>.
\<close>

definition object_prototype_names :: "string list" where
  "object_prototype_names =
     [''constructor'', ''__defineGetter__'', ''__defineSetter__'', ''hasOwnProperty'',
      ''__lookupGetter__'', ''__lookupSetter__'', ''isPrototypeOf'', ''propertyIsEnumerable'',
      ''toString'', ''valueOf'', ''__proto__'', ''toLocaleString'']"

datatype js_error = TypeError

subsection \<open>header.ts\<close>

text \<open>
  The parameter \<^verbatim>\<open>headers\<close> has type
  \<^verbatim>\<open>Record<string, string | string[] | undefined> | undefined\<close>. A headers object has its
  own properties (\<open>own\<close>, a map from names to stored values) and a prototype, which is
  \<^verbatim>\<open>Object.prototype\<close> (an object literal, the headers of a Node request) or \<^verbatim>\<open>null\<close>
  (\<^verbatim>\<open>Object.create(null)\<close>).

  \<open>js_value\<close> are the values the body of \<^verbatim>\<open>header\<close> handles: \<^verbatim>\<open>undefined\<close>, a string, an
  array of strings, or the member of \<^verbatim>\<open>Object.prototype\<close> of a given name. The two reads of
  the body are \<open>read_property\<close> (\<^verbatim>\<open>headers[name]\<close>) and \<open>read_index\<close> (\<^verbatim>\<open>value[0]\<close>); both
  throw on \<^verbatim>\<open>undefined\<close>, an index beyond the end of an array or a string reads as
  \<^verbatim>\<open>undefined\<close>, and no member of \<^verbatim>\<open>Object.prototype\<close> has a property \<^verbatim>\<open>0\<close>.
\<close>

datatype header_value = HUndefined | HString string | HArray "string list"

type_synonym headers = "string \<rightharpoonup> header_value"

datatype prototype = Object_prototype | Null_prototype

record headers_object =
  own :: headers
  prototype :: prototype

datatype js_value = VUndefined | VString string | VArray "string list" | VMember string

definition read_property :: "headers_object option \<Rightarrow> string \<Rightarrow> js_error + js_value" where
  "read_property hs name =
     (case hs of
        None \<Rightarrow> Inl TypeError
      | Some h \<Rightarrow>
          Inr (case own h name of
                 Some HUndefined \<Rightarrow> VUndefined
               | Some (HString v) \<Rightarrow> VString v
               | Some (HArray vs) \<Rightarrow> VArray vs
               | None \<Rightarrow>
                   if prototype h = Object_prototype \<and> name \<in> set object_prototype_names
                   then VMember name else VUndefined))"

definition read_index :: "js_value \<Rightarrow> nat \<Rightarrow> js_error + js_value" where
  "read_index v i =
     (case v of
        VUndefined \<Rightarrow> Inl TypeError
      | VArray vs \<Rightarrow> Inr (if i < length vs then VString (vs ! i) else VUndefined)
      | VString s \<Rightarrow> Inr (if i < length s then VString [s ! i] else VUndefined)
      | VMember m \<Rightarrow> Inr VUndefined)"

definition isArray :: "js_value \<Rightarrow> bool" where
  "isArray v = (case v of VArray vs \<Rightarrow> True | _ \<Rightarrow> False)"

definition header :: "headers_object option \<Rightarrow> string \<Rightarrow> js_error + js_value" where
  "header hs name =
     (if hs = None then Inr VUndefined
      else
        (case read_property hs name of
           Inl e \<Rightarrow> Inl e
         | Inr v \<Rightarrow> if isArray v then read_index v 0 else Inr v))"

text \<open>
  The declared result type of \<^verbatim>\<open>header\<close> is \<^verbatim>\<open>string | undefined\<close>, and its callers treat
  the result as such: \<open>string_of\<close> reads a result as a \<^typ>\<open>string option\<close>, and
  \<open>string_or_undefined\<close> is the way back. At the one name the middleware asks for,
  \<^verbatim>\<open>mcp-session-id\<close>, the result is a string or \<^verbatim>\<open>undefined\<close> (lemma \<open>header_session_id\<close>
  below), so nothing is lost there.
\<close>

definition string_of :: "js_value \<Rightarrow> string option" where
  "string_of v = (case v of VString s \<Rightarrow> Some s | _ \<Rightarrow> None)"

definition string_or_undefined :: "string option \<Rightarrow> js_value" where
  "string_or_undefined sid = (case sid of None \<Rightarrow> VUndefined | Some s \<Rightarrow> VString s)"

subsection \<open>uuid.ts\<close>

text \<open>
  The regular expression literal of \<^verbatim>\<open>validUUID\<close> is a sequence of atoms, each with a
  repetition count, between the anchors \<^verbatim>\<open>^\<close> and \<^verbatim>\<open>$\<close> (without the flag \<^verbatim>\<open>m\<close> they
  match only at the two ends of the input). The flag \<^verbatim>\<open>i\<close> compares characters after
  canonicalisation: \<^verbatim>\<open>canonicalize\<close> maps the code units of \<^verbatim>\<open>a\<close> to \<^verbatim>\<open>z\<close> to those of
  \<^verbatim>\<open>A\<close> to \<^verbatim>\<open>Z\<close>. (JavaScript also folds some code units above 127, but never onto a
  code unit below 128, so they cannot meet a member of an ASCII class.)
\<close>

datatype regex_atom = CharClass "(char \<times> char) list" | Literal char

type_synonym regex = "(regex_atom \<times> nat) list"

definition canonicalize :: "nat \<Rightarrow> nat" where
  "canonicalize n = (if 97 \<le> n \<and> n \<le> 122 then n - 32 else n)"

fun atom_matches :: "regex_atom \<Rightarrow> char \<Rightarrow> bool" where
  "atom_matches (CharClass rs) c =
     list_ex (\<lambda>(lo, hi). list_ex (\<lambda>a. canonicalize a = canonicalize (of_char c))
                                   [of_char lo ..< Suc (of_char hi)]) rs"
| "atom_matches (Literal a) c = (canonicalize (of_char a) = canonicalize (of_char c))"

fun regex_test :: "regex \<Rightarrow> string \<Rightarrow> bool" where
  "regex_test [] s = (s = [])"
| "regex_test ((a, 0) # r) s = regex_test r s"
| "regex_test ((a, Suc n) # r) s =
     (case s of [] \<Rightarrow> False | c # cs \<Rightarrow> atom_matches a c \<and> regex_test ((a, n) # r) cs)"

definition hex_class :: regex_atom where
  "hex_class = CharClass [(CHR ''0'', CHR ''9''), (CHR ''a'', CHR ''f'')]"

text \<open>\<^verbatim>\<open>/^[0-9a-f]{8}-[0-9a-f]{4}-[0-9a-f]{4}-[0-9a-f]{4}-[0-9a-f]{12}$/i\<close>\<close>

definition uuid_regex :: regex where
  "uuid_regex =
     [(hex_class, 8), (Literal CHR ''-'', 1), (hex_class, 4), (Literal CHR ''-'', 1),
      (hex_class, 4), (Literal CHR ''-'', 1), (hex_class, 4), (Literal CHR ''-'', 1),
      (hex_class, 12)]"

definition validUUID :: "string option \<Rightarrow> bool" where
  "validUUID sid =
     (case sid of
        None \<Rightarrow> False
      | Some s \<Rightarrow> if s = [] then False else regex_test uuid_regex s)"

text \<open>
  The shape the specification asks for, in its own words: five groups of 8, 4, 4, 4 and 12
  hexadecimal digits of either case, separated by hyphens, and nothing else.
\<close>

definition hexadecimal :: "char \<Rightarrow> bool" where
  "hexadecimal c = (c \<in> set ''0123456789ABCDEFabcdef'')"

definition hex_group :: "nat \<Rightarrow> string \<Rightarrow> bool" where
  "hex_group n g = (length g = n \<and> list_all hexadecimal g)"

definition canonical_uuid_shape :: "string \<Rightarrow> bool" where
  "canonical_uuid_shape s =
     (\<exists>a b c d e.
        hex_group 8 a \<and> hex_group 4 b \<and> hex_group 4 c \<and> hex_group 4 d \<and> hex_group 12 e \<and>
        s = a @ ''-'' @ b @ ''-'' @ c @ ''-'' @ d @ ''-'' @ e)"

subsection \<open>The middleware: registry and transports\<close>

text \<open>
  A transport is an object of the SDK class \<^verbatim>\<open>StreamableHTTPServerTransport\<close>. The
  middleware reads and writes four of its members: the two constructor options, the
  field \<^verbatim>\<open>sessionId\<close> and the field \<^verbatim>\<open>onclose\<close>. Objects have an identity (two transports
  are distinct even when their fields agree, and the closures of \<^verbatim>\<open>newTransport\<close> capture
  the object, not a copy), so the state holds the transports in a store: a reference is
  an index into \<open>objects\<close>, and \<^verbatim>\<open>new\<close> appends.

  The three function values the middleware installs are the constructors below; each
  carries the transport its closure captured.
  \<^item> \<open>RandomUUID\<close> is \<^verbatim>\<open>() => randomUUID()\<close>;
  \<^item> \<open>RegisterUnder r\<close> is \<^verbatim>\<open>(sessionId) => { this.transports[sessionId] = transport; }\<close>;
  \<^item> \<open>DeleteEntryOf r\<close> is
    \<^verbatim>\<open>() => { if (transport.sessionId) { delete this.transports[transport.sessionId]; } }\<close>.
\<close>

type_synonym ref = nat

datatype generator = RandomUUID

datatype init_callback = RegisterUnder ref

datatype close_callback = DeleteEntryOf ref

record transport =
  sessionIdGenerator :: "generator option"
  onsessioninitialized :: "init_callback option"
  sessionId :: "string option"
  onclose :: "close_callback option"

text \<open>
  The state of a \<^verbatim>\<open>McpServerMiddleware\<close>: \<open>transports\<close> is the field
  \<^verbatim>\<open>private readonly transports: Record<string, ...> = {}\<close> (the map holds the object's
  own properties), \<open>objects\<close> is the store of the transports created so far.
\<close>

record McpServerMiddleware =
  transports :: "string \<rightharpoonup> ref"
  objects :: "transport list"

definition new_McpServerMiddleware :: McpServerMiddleware where
  "new_McpServerMiddleware = \<lparr>transports = Map.empty, objects = []\<rparr>"

text \<open>
  The registry is created by the object literal \<^verbatim>\<open>{}\<close>, so the read
  \<^verbatim>\<open>this.transports[sessionId]\<close> follows the prototype chain to \<^verbatim>\<open>Object.prototype\<close>. An
  assignment \<^verbatim>\<open>this.transports[k] = t\<close> creates or replaces the own property \<^verbatim>\<open>k\<close> and
  \<^verbatim>\<open>delete\<close> removes it (for every key but \<^verbatim>\<open>__proto__\<close>, which no caller writes: \<^verbatim>\<open>post\<close>
  hands \<^verbatim>\<open>newTransport\<close> only identifiers that \<^verbatim>\<open>validUUID\<close> accepts, and the generator is
  \<^verbatim>\<open>randomUUID\<close>).
\<close>

datatype property = Undefined | Inherited | Transport ref

definition get_property :: "(string \<rightharpoonup> ref) \<Rightarrow> string \<Rightarrow> property" where
  "get_property obj k =
     (case obj k of
        Some r \<Rightarrow> Transport r
      | None \<Rightarrow> if k \<in> set object_prototype_names then Inherited else Undefined)"

text \<open>
  \<^verbatim>\<open>sessionId && this.transports[sessionId]\<close>: a falsy \<^verbatim>\<open>sessionId\<close> is the value of the
  expression (it is only ever tested for truthiness, so it is \<open>Undefined\<close> here).
\<close>

definition session_lookup :: "McpServerMiddleware \<Rightarrow> string option \<Rightarrow> property" where
  "session_lookup st sid =
     (case sid of
        None \<Rightarrow> Undefined
      | Some s \<Rightarrow> if s = [] then Undefined else get_property (transports st) s)"

definition update_object ::
  "ref \<Rightarrow> (transport \<Rightarrow> transport) \<Rightarrow> McpServerMiddleware \<Rightarrow> McpServerMiddleware" where
  "update_object r f st = st\<lparr>objects := (objects st)[r := f (objects st ! r)]\<rparr>"

text \<open>\<^verbatim>\<open>new StreamableHTTPServerTransport({sessionIdGenerator, onsessioninitialized})\<close>\<close>

definition new_StreamableHTTPServerTransport ::
  "generator option \<Rightarrow> init_callback option \<Rightarrow> transport" where
  "new_StreamableHTTPServerTransport g cb =
     \<lparr>sessionIdGenerator = g, onsessioninitialized = cb, sessionId = None, onclose = None\<rparr>"

text \<open>
  \<^verbatim>\<open>newTransport\<close>. The two awaited calls at its end, \<^verbatim>\<open>this.newServer(req, res, transport)\<close>
  and \<^verbatim>\<open>server.connect(transport)\<close>, belong to the caller's factory and to the SDK; the
  model covers the runs in which they return, and they leave the registry and the four
  members above as they are (\<^verbatim>\<open>connect\<close> wraps \<^verbatim>\<open>onclose\<close> and still calls it).
\<close>

definition newTransport ::
  "string option \<Rightarrow> McpServerMiddleware \<Rightarrow> ref \<times> McpServerMiddleware" where
  "newTransport sid st =
     (let r = length (objects st);
          generated =
            st\<lparr>objects := objects st @
               [new_StreamableHTTPServerTransport (Some RandomUUID) (Some (RegisterUnder r))]\<rparr>;
          st1 =
            (case sid of
               None \<Rightarrow> generated
             | Some s \<Rightarrow>
                 if s = [] then generated
                 else
                   (let t = new_StreamableHTTPServerTransport None None;
                        t = t\<lparr>sessionId := Some s\<rparr>;
                        st' = st\<lparr>objects := objects st @ [t]\<rparr>;
                        st' = st'\<lparr>transports := (transports st')(s \<mapsto> r)\<rparr>
                    in update_object r (\<lambda>t. t\<lparr>onclose := Some (DeleteEntryOf r)\<rparr>) st'));
          st2 = update_object r (\<lambda>t. t\<lparr>onclose := Some (DeleteEntryOf r)\<rparr>) st1
      in (r, st2))"

text \<open>Running the two closures: what their bodies do to the state.\<close>

definition run_onsessioninitialized ::
  "init_callback \<Rightarrow> string \<Rightarrow> McpServerMiddleware \<Rightarrow> McpServerMiddleware" where
  "run_onsessioninitialized cb g st =
     (case cb of RegisterUnder r \<Rightarrow> st\<lparr>transports := (transports st)(g \<mapsto> r)\<rparr>)"

definition run_onclose :: "close_callback \<Rightarrow> McpServerMiddleware \<Rightarrow> McpServerMiddleware" where
  "run_onclose cb st =
     (case cb of
        DeleteEntryOf r \<Rightarrow>
          (if r < length (objects st) then
             (case sessionId (objects st ! r) of
                None \<Rightarrow> st
              | Some s \<Rightarrow> if s = [] then st else st\<lparr>transports := (transports st)(s := None)\<rparr>)
           else st))"

subsection \<open>The middleware: the request handlers\<close>

datatype json = JNull | JNumber int | JString string | JObject "(string \<times> json) list"

datatype verb = GET | POST | DELETE | OtherVerb

record request =
  verb :: verb
  headers :: headers_object
  body :: json

datatype payload = Json json | Text string

text \<open>
  What a handler does with a request: it calls \<^verbatim>\<open>handleRequest\<close> on a transport (with the
  parsed body or without), it sends a response of its own, or it throws. Calling
  \<^verbatim>\<open>transport.handleRequest(...)\<close> on a member of \<^verbatim>\<open>Object.prototype\<close> throws a
  \<^verbatim>\<open>TypeError\<close>: none of them has a property of that name.
\<close>

datatype outcome = Forwarded ref "json option" | Responded nat payload | Raised js_error

definition no_valid_session :: json where
  "no_valid_session =
     JObject
       [(''jsonrpc'', JString ''2.0''),
        (''error'',
           JObject
             [(''code'', JNumber (- 32000)),
              (''message'', JString ''Bad Request: No valid session ID provided'')]),
        (''id'', JNull)]"

text \<open>
  \<^verbatim>\<open>post\<close>; \<^verbatim>\<open>isInitializeRequest\<close> is the SDK's predicate on the parsed body, a parameter
  here.
\<close>

definition post ::
  "(json \<Rightarrow> bool) \<Rightarrow> request \<Rightarrow> McpServerMiddleware \<Rightarrow> outcome \<times> McpServerMiddleware" where
  "post isInitializeRequest req st =
     (case header (Some (headers req)) ''mcp-session-id'' of
        Inl e \<Rightarrow> (Raised e, st)
      | Inr v \<Rightarrow>
          (let sid = string_of v in
           case session_lookup st sid of
             Transport r \<Rightarrow> (Forwarded r (Some (body req)), st)
           | Inherited \<Rightarrow> (Raised TypeError, st)
           | Undefined \<Rightarrow>
               if (\<not> truthy sid \<and> isInitializeRequest (body req)) \<or> validUUID sid then
                 (let (r, st') = newTransport sid st in (Forwarded r (Some (body req)), st'))
               else (Responded 404 (Json no_valid_session), st)))"

definition getDelete :: "request \<Rightarrow> McpServerMiddleware \<Rightarrow> outcome \<times> McpServerMiddleware" where
  "getDelete req st =
     (case header (Some (headers req)) ''mcp-session-id'' of
        Inl e \<Rightarrow> (Raised e, st)
      | Inr v \<Rightarrow>
          (let sid = string_of v in
           case session_lookup st sid of
             Undefined \<Rightarrow>
               (Responded 400
                  (Text (''Invalid or missing session ID: '' @
                     (case sid of
                        None \<Rightarrow> ''none''
                      | Some s \<Rightarrow> if s = [] then ''none'' else take 8 s))),
                st)
           | Transport r \<Rightarrow> (Forwarded r None, st)
           | Inherited \<Rightarrow> (Raised TypeError, st)))"

text \<open>
  \<^verbatim>\<open>setup\<close> registers \<^verbatim>\<open>post\<close> for POST and for GET and \<^verbatim>\<open>getDelete\<close> for DELETE; a
  request with another verb reaches no handler of the middleware.
\<close>

definition middleware ::
  "(json \<Rightarrow> bool) \<Rightarrow> request \<Rightarrow> McpServerMiddleware \<Rightarrow>
     (outcome \<times> McpServerMiddleware) option" where
  "middleware isInitializeRequest req st =
     (case verb req of
        POST \<Rightarrow> Some (post isInitializeRequest req st)
      | GET \<Rightarrow> Some (post isInitializeRequest req st)
      | DELETE \<Rightarrow> Some (getDelete req st)
      | OtherVerb \<Rightarrow> None)"

text \<open>
  The handlers end with \<^verbatim>\<open>await transport.handleRequest(...)\<close>, which runs the SDK's
  transport: it can write the transport's fields and call the closures above. What it
  does to the state is the parameter \<open>handleRequest\<close> of the two definitions below, which
  are the handlers together with that call.
\<close>

definition post_awaited ::
  "(ref \<Rightarrow> json option \<Rightarrow> McpServerMiddleware \<Rightarrow> McpServerMiddleware) \<Rightarrow>
   (json \<Rightarrow> bool) \<Rightarrow> request \<Rightarrow> McpServerMiddleware \<Rightarrow> outcome \<times> McpServerMiddleware" where
  "post_awaited handleRequest isInitializeRequest req st =
     (case post isInitializeRequest req st of
        (Forwarded r b, st') \<Rightarrow> (Forwarded r b, handleRequest r b st')
      | res \<Rightarrow> res)"


text \<open>
  The registry invariant: every entry leads to a transport of the store whose own
  \<^verbatim>\<open>sessionId\<close> is the entry's key.
\<close>

definition registry_consistent :: "McpServerMiddleware \<Rightarrow> bool" where
  "registry_consistent st =
     (\<forall>s r. transports st s = Some r \<longrightarrow>
        r < length (objects st) \<and> sessionId (objects st ! r) = Some s)"

subsection \<open>store.ts\<close>

text \<open>
  The file system, as far as \<^verbatim>\<open>saveGame\<close> and \<^verbatim>\<open>loadGame\<close> use it: a map from path strings
  to directories and files (a file holds the text written to it: \<^verbatim>\<open>writeFile\<close> encodes a
  string as UTF-8 and \<^verbatim>\<open>readFile(path, "utf-8")\<close> decodes it), and the set \<open>refused\<close> of
  the paths at which the operating system rejects a creation or a write (a missing
  parent directory, permissions, a full disk). A rejected promise is an \<open>Inl\<close>.
\<close>

datatype node = Directory | File string

record file_system =
  entries :: "string \<rightharpoonup> node"
  refused :: "string set"

datatype store_error = IOError | JsonError | ChessError

definition existsSync :: "string \<Rightarrow> file_system \<Rightarrow> bool" where
  "existsSync p fs = (entries fs p \<noteq> None)"

definition mkdir :: "string \<Rightarrow> file_system \<Rightarrow> store_error + file_system" where
  "mkdir p fs =
     (if p \<in> refused fs then Inl IOError
      else
        (case entries fs p of
           Some (File d) \<Rightarrow> Inl IOError
         | _ \<Rightarrow> Inr (fs\<lparr>entries := (entries fs)(p \<mapsto> Directory)\<rparr>)))"

definition writeFile :: "string \<Rightarrow> string \<Rightarrow> file_system \<Rightarrow> store_error + file_system" where
  "writeFile p d fs =
     (if p \<in> refused fs \<or> entries fs p = Some Directory then Inl IOError
      else Inr (fs\<lparr>entries := (entries fs)(p \<mapsto> File d)\<rparr>))"

definition readFile :: "string \<Rightarrow> file_system \<Rightarrow> store_error + string" where
  "readFile p fs = (case entries fs p of Some (File d) \<Rightarrow> Inr d | _ \<Rightarrow> Inl IOError)"

text \<open>
  \<^verbatim>\<open>JSON.stringify(s, null, 2)\<close> of a string \<open>s\<close> is the quoted string (the indentation
  argument only affects arrays and objects): the code units with a short escape get it,
  the other control characters become \<^verbatim>\<open>\u00XX\<close> in lower-case hexadecimal, every other
  code unit stands for itself. \<^verbatim>\<open>JSON.parse\<close> is modelled on texts that are one JSON string
  literal between optional white space, where it returns the string; on every other
  text \<open>JSON_parse\<close> is \<open>None\<close> (JavaScript throws a \<^verbatim>\<open>SyntaxError\<close> there, or returns a
  value that is not a string, which the constructor \<^verbatim>\<open>Chess\<close> does not accept).
\<close>

definition hex_digits :: string where
  "hex_digits = ''0123456789abcdef''"

definition quote_unit :: "char \<Rightarrow> string" where
  "quote_unit c =
     (if c = CHR 0x08 then [CHR 0x5C, CHR ''b'']
      else if c = CHR 0x09 then [CHR 0x5C, CHR ''t'']
      else if c = CHR 0x0A then [CHR 0x5C, CHR ''n'']
      else if c = CHR 0x0C then [CHR 0x5C, CHR ''f'']
      else if c = CHR 0x0D then [CHR 0x5C, CHR ''r'']
      else if c = CHR 0x22 then [CHR 0x5C, CHR 0x22]
      else if c = CHR 0x5C then [CHR 0x5C, CHR 0x5C]
      else if (of_char c :: nat) < 0x20 then
        [CHR 0x5C, CHR ''u'', CHR ''0'', CHR ''0'',
         hex_digits ! (of_char c div 16), hex_digits ! (of_char c mod 16)]
      else [c])"

definition JSON_stringify :: "string \<Rightarrow> string" where
  "JSON_stringify s = CHR 0x22 # concat (map quote_unit s) @ [CHR 0x22]"

definition hex_value :: "char \<Rightarrow> nat option" where
  "hex_value c =
     (let n = (of_char c :: nat) in
      if 48 \<le> n \<and> n \<le> 57 then Some (n - 48)
      else if 97 \<le> n \<and> n \<le> 102 then Some (n - 87)
      else if 65 \<le> n \<and> n \<le> 70 then Some (n - 55)
      else None)"

definition hex4 :: "char \<Rightarrow> char \<Rightarrow> char \<Rightarrow> char \<Rightarrow> nat option" where
  "hex4 h1 h2 h3 h4 =
     (case (hex_value h1, hex_value h2, hex_value h3, hex_value h4) of
        (Some a, Some b, Some c, Some d) \<Rightarrow> Some (((a * 16 + b) * 16 + c) * 16 + d)
      | _ \<Rightarrow> None)"

definition unescape :: "char \<Rightarrow> char option" where
  "unescape e =
     (if e = CHR 0x22 then Some (CHR 0x22)
      else if e = CHR 0x5C then Some (CHR 0x5C)
      else if e = CHR ''/'' then Some (CHR ''/'')
      else if e = CHR ''b'' then Some (CHR 0x08)
      else if e = CHR ''f'' then Some (CHR 0x0C)
      else if e = CHR ''n'' then Some (CHR 0x0A)
      else if e = CHR ''r'' then Some (CHR 0x0D)
      else if e = CHR ''t'' then Some (CHR 0x09)
      else None)"

fun unquote :: "string \<Rightarrow> (string \<times> string) option" where
  "unquote [] = None"
| "unquote (c # cs) =
     (if c = CHR 0x22 then Some ([], cs)
      else if c = CHR 0x5C then
        (case cs of
           [] \<Rightarrow> None
         | e # cs' \<Rightarrow>
             if e = CHR ''u'' then
               (case cs' of
                  h1 # h2 # h3 # h4 # rest \<Rightarrow>
                    (case hex4 h1 h2 h3 h4 of
                       None \<Rightarrow> None
                     | Some n \<Rightarrow>
                         if n < 256 then map_option (apfst ((#) (char_of n))) (unquote rest)
                         else None)
                | _ \<Rightarrow> None)
             else
               (case unescape e of
                  None \<Rightarrow> None
                | Some d \<Rightarrow> map_option (apfst ((#) d)) (unquote cs')))
      else if (of_char c :: nat) < 0x20 then None
      else map_option (apfst ((#) c)) (unquote cs))"

definition whitespace :: "char \<Rightarrow> bool" where
  "whitespace c = (c = CHR '' '' \<or> c = CHR 0x09 \<or> c = CHR 0x0A \<or> c = CHR 0x0D)"

definition JSON_parse :: "string \<Rightarrow> string option" where
  "JSON_parse d =
     (case dropWhile whitespace d of
        [] \<Rightarrow> None
      | c # cs \<Rightarrow>
          if c = CHR 0x22 then
            (case unquote cs of
               None \<Rightarrow> None
             | Some (s, rest) \<Rightarrow> if list_all whitespace rest then Some s else None)
          else None)"

text \<open>
  The template literal \<^verbatim>\<open>`./games/${sessionId}.json`\<close> renders \<^verbatim>\<open>undefined\<close> as the text
  \<open>undefined\<close>.
\<close>

definition game_path :: "string option \<Rightarrow> string" where
  "game_path sid = ''./games/'' @ (case sid of None \<Rightarrow> ''undefined'' | Some s \<Rightarrow> s) @ ''.json''"

text \<open>
  The chess library is a collaborator: \<open>fen\<close> is \<^verbatim>\<open>game.fen()\<close> and \<open>Chess\<close> is the constructor
  \<^verbatim>\<open>new Chess(fen)\<close>, \<open>None\<close> when it throws. Both are parameters.
\<close>

definition saveGame ::
  "('g \<Rightarrow> string) \<Rightarrow> string option \<Rightarrow> 'g \<Rightarrow> file_system \<Rightarrow> store_error + file_system" where
  "saveGame fen sid game fs =
     (case (if \<not> existsSync ''./games'' fs then mkdir ''./games'' fs else Inr fs) of
        Inl e \<Rightarrow> Inl e
      | Inr fs1 \<Rightarrow> writeFile (game_path sid) (JSON_stringify (fen game)) fs1)"

definition loadGame ::
  "(string \<Rightarrow> 'g option) \<Rightarrow> string option \<Rightarrow> file_system \<Rightarrow> store_error + 'g option" where
  "loadGame Chess sid fs =
     (if \<not> existsSync (game_path sid) fs \<or> \<not> truthy sid then Inr None
      else
        (case readFile (game_path sid) fs of
           Inl e \<Rightarrow> Inl e
         | Inr data \<Rightarrow>
             (case JSON_parse data of
                None \<Rightarrow> Inl JsonError
              | Some f \<Rightarrow> (case Chess f of None \<Rightarrow> Inl ChessError | Some g \<Rightarrow> Inr (Some g)))))"

section \<open>Theorems\<close>

subsection \<open>The header extractor\<close>

lemma string_of_string_or_undefined [simp]: "string_of (string_or_undefined sid) = sid"
  by (cases sid) (simp_all add: string_of_def string_or_undefined_def)

lemma string_or_undefined_simps [simp]:
  "string_or_undefined (Some s) = VString s"
  "string_or_undefined None = VUndefined"
  by (simp_all add: string_or_undefined_def)

lemma string_of_simps [simp]:
  "string_of (VString s) = Some s"
  "string_of VUndefined = None"
  "string_of (VArray vs) = None"
  "string_of (VMember m) = None"
  by (simp_all add: string_of_def)

lemma header_spec:
  "header hs name =
     Inr (case hs of
            None \<Rightarrow> VUndefined
          | Some h \<Rightarrow>
              (case own h name of
                 None \<Rightarrow>
                   if prototype h = Object_prototype \<and> name \<in> set object_prototype_names
                   then VMember name else VUndefined
               | Some HUndefined \<Rightarrow> VUndefined
               | Some (HString v) \<Rightarrow> VString v
               | Some (HArray vs) \<Rightarrow> (case vs of [] \<Rightarrow> VUndefined | v # _ \<Rightarrow> VString v)))"
  by (auto simp add: header_def read_property_def read_index_def isArray_def
      split: option.splits header_value.splits list.splits)

lemma header_own:
  "own h name = Some (HString v) \<Longrightarrow> header (Some h) name = Inr (VString v)"
  "own h name = Some (HArray (v # vs)) \<Longrightarrow> header (Some h) name = Inr (VString v)"
  "own h name = Some (HArray []) \<Longrightarrow> header (Some h) name = Inr VUndefined"
  "own h name = Some HUndefined \<Longrightarrow> header (Some h) name = Inr VUndefined"
  by (simp_all add: header_spec)

lemma header_absent:
  "own h name = None \<Longrightarrow> prototype h = Null_prototype \<or> name \<notin> set object_prototype_names \<Longrightarrow>
   header (Some h) name = Inr VUndefined"
  by (auto simp add: header_spec)

lemma header_inherited:
  "own h name = None \<Longrightarrow> prototype h = Object_prototype \<Longrightarrow>
   name \<in> set object_prototype_names \<Longrightarrow> header (Some h) name = Inr (VMember name)"
  by (simp add: header_spec)

lemma header_examples:
  "header (Some (h\<lparr>own := (own h)(name \<mapsto> HString ''abc'')\<rparr>)) name = Inr (VString ''abc'')"
  "header (Some (h\<lparr>own := (own h)(name \<mapsto> HArray [''abc'', ''def''])\<rparr>)) name = Inr (VString ''abc'')"
  by (simp_all add: header_spec)

lemma session_name_not_inherited: "''mcp-session-id'' \<notin> set object_prototype_names"
  by (simp add: object_prototype_names_def)

lemma header_session_id:
  "\<exists>sid. header (Some h) ''mcp-session-id'' = Inr (string_or_undefined sid)"
proof (cases "own h ''mcp-session-id''")
  case None
  then have "header (Some h) ''mcp-session-id'' = Inr (string_or_undefined None)"
    by (simp add: header_absent session_name_not_inherited string_or_undefined_def)
  then show ?thesis ..
next
  case (Some x)
  show ?thesis
  proof (cases x)
    case HUndefined
    with Some have "header (Some h) ''mcp-session-id'' = Inr (string_or_undefined None)"
      by (simp add: header_own string_or_undefined_def)
    then show ?thesis ..
  next
    case (HString v)
    with Some have "header (Some h) ''mcp-session-id'' = Inr (string_or_undefined (Some v))"
      by (simp add: header_own string_or_undefined_def)
    then show ?thesis ..
  next
    case (HArray vs)
    show ?thesis
    proof (cases vs)
      case Nil
      with Some HArray have "header (Some h) ''mcp-session-id'' = Inr (string_or_undefined None)"
        by (simp add: header_own string_or_undefined_def)
      then show ?thesis ..
    next
      case (Cons v vs')
      with Some HArray have "header (Some h) ''mcp-session-id'' = Inr (string_or_undefined (Some v))"
        by (simp add: header_own string_or_undefined_def)
      then show ?thesis ..
    qed
  qed
qed

text \<open>
  C7. For a headers object and a name: \<open>header\<close> returns the first element when the
  stored value is a sequence of strings and the stored scalar unchanged otherwise
  (\<open>header_own\<close>, \<open>header_examples\<close>), and it returns \<^verbatim>\<open>undefined\<close> for an absent header when
  the object has no prototype or the name is not that of a member of \<^verbatim>\<open>Object.prototype\<close>
  (\<open>header_absent\<close>). For an object with the prototype \<^verbatim>\<open>Object.prototype\<close> and an absent
  header of such a name, \<^verbatim>\<open>headers[name]\<close> is the inherited member and \<open>header\<close> returns
  it (\<open>header_inherited\<close>): at the empty object \<^verbatim>\<open>{}\<close> and the name \<open>constructor\<close> the
  result is a function, not none, against the declared result type
  \<^verbatim>\<open>string | undefined\<close>.
\<close>

theorem header_inherited_name:
  "own \<lparr>own = Map.empty, prototype = Object_prototype\<rparr> ''constructor'' = None \<and>
   header (Some \<lparr>own = Map.empty, prototype = Object_prototype\<rparr>) ''constructor'' =
     Inr (VMember ''constructor'')"
  by (simp add: header_def read_property_def isArray_def object_prototype_names_def)

text \<open>
  C10. \<open>header\<close> never raises. With no headers object it returns \<^verbatim>\<open>undefined\<close> (the read
  \<^verbatim>\<open>headers[name]\<close>, which throws on \<^verbatim>\<open>undefined\<close>, is not reached); with an empty sequence
  stored under the name it returns \<^verbatim>\<open>undefined\<close> (index 0 of an empty array reads as
  \<^verbatim>\<open>undefined\<close>; the read \<^verbatim>\<open>value[0]\<close>, which throws on \<^verbatim>\<open>undefined\<close>, is reached for arrays
  only); and for every input the result is a value, the one the third conjunct gives,
  never an error.
\<close>

theorem header_total:
  "header None name = Inr VUndefined \<and>
   header (Some (h\<lparr>own := (own h)(name \<mapsto> HArray [])\<rparr>)) name = Inr VUndefined \<and>
   header hs name =
     Inr (case hs of
            None \<Rightarrow> VUndefined
          | Some h' \<Rightarrow>
              (case own h' name of
                 None \<Rightarrow>
                   if prototype h' = Object_prototype \<and> name \<in> set object_prototype_names
                   then VMember name else VUndefined
               | Some HUndefined \<Rightarrow> VUndefined
               | Some (HString v) \<Rightarrow> VString v
               | Some (HArray vs) \<Rightarrow> (case vs of [] \<Rightarrow> VUndefined | v # _ \<Rightarrow> VString v))) \<and>
   header hs name \<noteq> Inl e \<and>
   read_property None name = Inl TypeError \<and>
   read_index VUndefined 0 = Inl TypeError"
  by (auto simp add: header_def read_property_def read_index_def isArray_def
      split: option.splits header_value.splits list.splits)

theorem header_total_witness:
  "header None ''mcp-session-id'' = Inr VUndefined \<and>
   header (Some \<lparr>own = [''mcp-session-id'' \<mapsto> HArray []], prototype = Object_prototype\<rparr>)
     ''mcp-session-id'' = Inr VUndefined \<and>
   header (Some \<lparr>own = [''mcp-session-id'' \<mapsto> HArray [''abc'', ''def'']],
                 prototype = Object_prototype\<rparr>) ''mcp-session-id'' = Inr (VString ''abc'') \<and>
   header (Some \<lparr>own = Map.empty, prototype = Object_prototype\<rparr>) ''toString'' =
     Inr (VMember ''toString'')"
  using header_total [of "''mcp-session-id''" "\<lparr>own = Map.empty, prototype = Object_prototype\<rparr>" None]
    header_total [of "''mcp-session-id''" "\<lparr>own = Map.empty, prototype = Object_prototype\<rparr>"
      "Some \<lparr>own = [''mcp-session-id'' \<mapsto> HArray [''abc'', ''def'']], prototype = Object_prototype\<rparr>"]
    header_total [of "''toString''" "\<lparr>own = Map.empty, prototype = Object_prototype\<rparr>"
      "Some \<lparr>own = Map.empty, prototype = Object_prototype\<rparr>"]
  by (simp add: object_prototype_names_def)

subsection \<open>The session identifier validator\<close>

lemma class_digit:
  "list_ex (\<lambda>a. canonicalize a = canonicalize n) [48..<Suc 57] \<longleftrightarrow> 48 \<le> n \<and> n \<le> 57"
  unfolding list_ex_iff set_upt Bex_def atLeastLessThan_iff canonicalize_def by presburger

lemma class_letter:
  "list_ex (\<lambda>a. canonicalize a = canonicalize n) [97..<Suc 102] \<longleftrightarrow>
     (65 \<le> n \<and> n \<le> 70) \<or> (97 \<le> n \<and> n \<le> 102)"
  unfolding list_ex_iff set_upt Bex_def atLeastLessThan_iff canonicalize_def by presburger

lemma hyphen_code: "canonicalize 45 = canonicalize n \<longleftrightarrow> n = 45"
  unfolding canonicalize_def by presburger

lemma hex_code_intervals:
  "{48..57} \<union> {65..70} \<union> {97..102} = set ([48..<58] @ [65..<71] @ [97..<103::nat])"
  by (simp only: set_append set_upt) auto

lemma hex_code_chars:
  "set ([48..<58] @ [65..<71] @ [97..<103::nat]) = of_char ` set ''0123456789ABCDEFabcdef''"
  by simp

lemma hexadecimal_code:
  "hexadecimal c \<longleftrightarrow>
     (48 \<le> (of_char c :: nat) \<and> (of_char c :: nat) \<le> 57) \<or>
     (65 \<le> (of_char c :: nat) \<and> (of_char c :: nat) \<le> 70) \<or>
     (97 \<le> (of_char c :: nat) \<and> (of_char c :: nat) \<le> 102)"
proof -
  have "hexadecimal c \<longleftrightarrow> (of_char c :: nat) \<in> of_char ` set ''0123456789ABCDEFabcdef''"
    unfolding hexadecimal_def
    by (subst inj_image_mem_iff) (auto simp add: inj_on_def)
  also have "\<dots> \<longleftrightarrow> (of_char c :: nat) \<in> {48..57} \<union> {65..70} \<union> {97..102}"
    by (simp only: hex_code_intervals hex_code_chars)
  finally show ?thesis by simp
qed

lemma hex_class_matches: "atom_matches hex_class c = hexadecimal c"
proof -
  have codes: "of_char CHR ''0'' = (48::nat)" "of_char CHR ''9'' = (57::nat)"
    "of_char CHR ''a'' = (97::nat)" "of_char CHR ''f'' = (102::nat)"
    by simp_all
  have "atom_matches hex_class c \<longleftrightarrow>
          list_ex (\<lambda>a. canonicalize a = canonicalize (of_char c)) [48..<Suc 57] \<or>
          list_ex (\<lambda>a. canonicalize a = canonicalize (of_char c)) [97..<Suc 102]"
    by (simp only: hex_class_def atom_matches.simps list_ex_Nil_iff list_ex_Cons_iff
          prod.case codes simp_thms)
  then show ?thesis
    by (simp only: class_digit class_letter hexadecimal_code)
qed

lemma hyphen_matches: "atom_matches (Literal CHR ''-'') c \<longleftrightarrow> c = CHR ''-''"
proof -
  have "atom_matches (Literal CHR ''-'') c \<longleftrightarrow> (of_char c :: nat) = of_char CHR ''-''"
    by (simp add: hyphen_code)
  then show ?thesis by (simp only: of_char_eq_iff)
qed

lemma regex_test_hex_group:
  "regex_test ((hex_class, n) # r) s \<longleftrightarrow>
     (\<exists>g t. hex_group n g \<and> s = g @ t \<and> regex_test r t)"
proof (induction n arbitrary: s)
  case 0
  show ?case by (simp add: hex_group_def)
next
  case (Suc n)
  show ?case
  proof (cases s)
    case Nil
    then show ?thesis by (simp add: hex_group_def)
  next
    case (Cons c cs)
    have "regex_test ((hex_class, Suc n) # r) s \<longleftrightarrow>
            hexadecimal c \<and> (\<exists>g t. hex_group n g \<and> cs = g @ t \<and> regex_test r t)"
      using Cons Suc.IH [of cs] by (simp add: hex_class_matches)
    also have "\<dots> \<longleftrightarrow> (\<exists>g t. hex_group (Suc n) g \<and> s = g @ t \<and> regex_test r t)"
      (is "?L \<longleftrightarrow> ?R")
    proof
      assume ?L
      then obtain g t where "hexadecimal c" "hex_group n g" "cs = g @ t" "regex_test r t"
        by blast
      then have "hex_group (Suc n) (c # g) \<and> s = (c # g) @ t \<and> regex_test r t"
        using Cons by (simp add: hex_group_def)
      then show ?R by blast
    next
      assume ?R
      then obtain g t where g: "hex_group (Suc n) g" "s = g @ t" "regex_test r t"
        by blast
      then obtain g' where "g = c # g'"
        using Cons by (cases g) (auto simp add: hex_group_def)
      with g Cons show ?L by (auto simp add: hex_group_def)
    qed
    finally show ?thesis .
  qed
qed

lemma regex_test_hyphen:
  "regex_test ((Literal CHR ''-'', Suc 0) # r) s \<longleftrightarrow> (\<exists>t. s = CHR ''-'' # t \<and> regex_test r t)"
  by (cases s) (auto simp add: hyphen_matches simp del: atom_matches.simps)

lemma uuid_regex_segments:
  "regex_test uuid_regex s \<longleftrightarrow>
     (\<exists>a t1. hex_group 8 a \<and> s = a @ t1 \<and> (\<exists>t2. t1 = CHR ''-'' # t2 \<and>
     (\<exists>b t3. hex_group 4 b \<and> t2 = b @ t3 \<and> (\<exists>t4. t3 = CHR ''-'' # t4 \<and>
     (\<exists>c t5. hex_group 4 c \<and> t4 = c @ t5 \<and> (\<exists>t6. t5 = CHR ''-'' # t6 \<and>
     (\<exists>d t7. hex_group 4 d \<and> t6 = d @ t7 \<and> (\<exists>t8. t7 = CHR ''-'' # t8 \<and>
     (\<exists>e t9. hex_group 12 e \<and> t8 = e @ t9 \<and> t9 = [])))))))))"
  unfolding uuid_regex_def One_nat_def
  by (simp only: regex_test_hex_group regex_test_hyphen regex_test.simps(1))

lemma shape_of_segments:
  assumes
    "(\<exists>a t1. hex_group 8 a \<and> s = a @ t1 \<and> (\<exists>t2. t1 = CHR ''-'' # t2 \<and>
     (\<exists>b t3. hex_group 4 b \<and> t2 = b @ t3 \<and> (\<exists>t4. t3 = CHR ''-'' # t4 \<and>
     (\<exists>c t5. hex_group 4 c \<and> t4 = c @ t5 \<and> (\<exists>t6. t5 = CHR ''-'' # t6 \<and>
     (\<exists>d t7. hex_group 4 d \<and> t6 = d @ t7 \<and> (\<exists>t8. t7 = CHR ''-'' # t8 \<and>
     (\<exists>e t9. hex_group 12 e \<and> t8 = e @ t9 \<and> t9 = [])))))))))"
  shows "canonical_uuid_shape s"
proof -
  from assms obtain a b c d e where
    "hex_group 8 a" "hex_group 4 b" "hex_group 4 c" "hex_group 4 d" "hex_group 12 e"
    "s = a @ CHR ''-'' # b @ CHR ''-'' # c @ CHR ''-'' # d @ CHR ''-'' # e @ []"
    by (elim exE conjE) simp
  then show ?thesis
    unfolding canonical_uuid_shape_def
    by (intro exI [of _ a] exI [of _ b] exI [of _ c] exI [of _ d] exI [of _ e]) simp
qed

lemma segments_of_shape:
  assumes "canonical_uuid_shape s"
  shows
    "(\<exists>a t1. hex_group 8 a \<and> s = a @ t1 \<and> (\<exists>t2. t1 = CHR ''-'' # t2 \<and>
     (\<exists>b t3. hex_group 4 b \<and> t2 = b @ t3 \<and> (\<exists>t4. t3 = CHR ''-'' # t4 \<and>
     (\<exists>c t5. hex_group 4 c \<and> t4 = c @ t5 \<and> (\<exists>t6. t5 = CHR ''-'' # t6 \<and>
     (\<exists>d t7. hex_group 4 d \<and> t6 = d @ t7 \<and> (\<exists>t8. t7 = CHR ''-'' # t8 \<and>
     (\<exists>e t9. hex_group 12 e \<and> t8 = e @ t9 \<and> t9 = [])))))))))"
proof -
  from assms obtain a b c d e where h:
    "hex_group 8 a" "hex_group 4 b" "hex_group 4 c" "hex_group 4 d" "hex_group 12 e"
    "s = a @ ''-'' @ b @ ''-'' @ c @ ''-'' @ d @ ''-'' @ e"
    unfolding canonical_uuid_shape_def by (elim exE conjE)
  have e: "\<exists>e' t9. hex_group 12 e' \<and> e = e' @ t9 \<and> t9 = []"
    using h(5) by simp
  have d: "\<exists>d' t7. hex_group 4 d' \<and> d @ ''-'' @ e = d' @ t7 \<and> (\<exists>t8. t7 = CHR ''-'' # t8 \<and>
          (\<exists>e' t9. hex_group 12 e' \<and> t8 = e' @ t9 \<and> t9 = []))"
    using h(4) e by (intro exI [of _ d] exI [of _ "''-'' @ e"]) simp
  have c: "\<exists>c' t5. hex_group 4 c' \<and> c @ ''-'' @ d @ ''-'' @ e = c' @ t5 \<and>
          (\<exists>t6. t5 = CHR ''-'' # t6 \<and>
          (\<exists>d t7. hex_group 4 d \<and> t6 = d @ t7 \<and> (\<exists>t8. t7 = CHR ''-'' # t8 \<and>
          (\<exists>e t9. hex_group 12 e \<and> t8 = e @ t9 \<and> t9 = []))))"
    using h(3) d by (intro exI [of _ c] exI [of _ "''-'' @ d @ ''-'' @ e"]) simp
  have b: "\<exists>b' t3. hex_group 4 b' \<and> b @ ''-'' @ c @ ''-'' @ d @ ''-'' @ e = b' @ t3 \<and>
          (\<exists>t4. t3 = CHR ''-'' # t4 \<and>
          (\<exists>c t5. hex_group 4 c \<and> t4 = c @ t5 \<and> (\<exists>t6. t5 = CHR ''-'' # t6 \<and>
          (\<exists>d t7. hex_group 4 d \<and> t6 = d @ t7 \<and> (\<exists>t8. t7 = CHR ''-'' # t8 \<and>
          (\<exists>e t9. hex_group 12 e \<and> t8 = e @ t9 \<and> t9 = []))))))"
    using h(2) c by (intro exI [of _ b] exI [of _ "''-'' @ c @ ''-'' @ d @ ''-'' @ e"]) simp
  show ?thesis
    using h(1) b unfolding h(6)
    by (intro exI [of _ a] exI [of _ "''-'' @ b @ ''-'' @ c @ ''-'' @ d @ ''-'' @ e"]) simp
qed

lemma regex_test_uuid: "regex_test uuid_regex s \<longleftrightarrow> canonical_uuid_shape s"
  unfolding uuid_regex_segments
  by (rule iffI, erule shape_of_segments, erule segments_of_shape)

lemma canonical_uuid_shape_length: "canonical_uuid_shape s \<Longrightarrow> length s = 36"
  by (auto simp add: canonical_uuid_shape_def hex_group_def)

text \<open>
  C6. \<open>validUUID\<close> returns true if and only if its input is present, non-empty and has
  exactly the 8-4-4-4-12 shape of hexadecimal groups separated by hyphens, in either
  case, with nothing before, after or between; for an absent and for an empty input it
  returns false.
\<close>

theorem validUUID_iff_canonical_shape:
  "(validUUID sid \<longleftrightarrow> (\<exists>s. sid = Some s \<and> s \<noteq> [] \<and> canonical_uuid_shape s)) \<and>
   \<not> validUUID None \<and> \<not> validUUID (Some [])"
  by (cases sid) (auto simp add: validUUID_def regex_test_uuid)

theorem validUUID_iff_canonical_shape_witness:
  "validUUID (Some ''123e4567-e89b-12d3-A456-426614174000'') \<and>
   canonical_uuid_shape ''123e4567-e89b-12d3-A456-426614174000''"
proof -
  have "validUUID (Some ''123e4567-e89b-12d3-A456-426614174000'')"
    by code_simp
  then show ?thesis
    using validUUID_iff_canonical_shape [of "Some ''123e4567-e89b-12d3-A456-426614174000''"]
    by simp
qed

subsection \<open>The registry and the transport lifecycle\<close>

lemma object_prototype_names_length:
  "k \<in> set object_prototype_names \<Longrightarrow> length k < 36"
  by (auto simp add: object_prototype_names_def)

lemma validUUID_not_inherited:
  assumes "validUUID (Some s)"
  shows "s \<notin> set object_prototype_names"
proof
  assume "s \<in> set object_prototype_names"
  then have "length s < 36" by (rule object_prototype_names_length)
  moreover have "length s = 36"
    using assms by (auto simp add: validUUID_def regex_test_uuid canonical_uuid_shape_length
        split: if_splits)
  ultimately show False by simp
qed

lemma session_lookup_registered:
  "s \<noteq> [] \<Longrightarrow> transports st s = Some r \<Longrightarrow> session_lookup st (Some s) = Transport r"
  by (simp add: session_lookup_def get_property_def)

lemma session_lookup_falsy: "\<not> truthy sid \<Longrightarrow> session_lookup st sid = Undefined"
  by (cases sid) (auto simp add: session_lookup_def)

lemma session_lookup_unregistered:
  "transports st s = None \<Longrightarrow> s \<notin> set object_prototype_names \<Longrightarrow>
   session_lookup st (Some s) = Undefined"
  by (simp add: session_lookup_def get_property_def)

lemma session_lookup_inherited:
  "transports st s = None \<Longrightarrow> s \<in> set object_prototype_names \<Longrightarrow>
   session_lookup st (Some s) = Inherited"
  by (auto simp add: session_lookup_def get_property_def object_prototype_names_def)

lemma newTransport_explicit:
  "s \<noteq> [] \<Longrightarrow>
   newTransport (Some s) st =
     (length (objects st),
      \<lparr>transports = (transports st)(s \<mapsto> length (objects st)),
       objects = objects st @
         [\<lparr>sessionIdGenerator = None, onsessioninitialized = None, sessionId = Some s,
           onclose = Some (DeleteEntryOf (length (objects st)))\<rparr>]\<rparr>)"
  by (simp add: newTransport_def update_object_def new_StreamableHTTPServerTransport_def Let_def)

lemma newTransport_generated:
  "\<not> truthy sid \<Longrightarrow>
   newTransport sid st =
     (length (objects st),
      \<lparr>transports = transports st,
       objects = objects st @
         [\<lparr>sessionIdGenerator = Some RandomUUID,
           onsessioninitialized = Some (RegisterUnder (length (objects st))),
           sessionId = None,
           onclose = Some (DeleteEntryOf (length (objects st)))\<rparr>]\<rparr>)"
  by (cases sid)
    (auto simp add: newTransport_def update_object_def new_StreamableHTTPServerTransport_def Let_def)

lemma newTransport_fresh:
  "fst (newTransport sid st) = length (objects st) \<and>
   length (objects (snd (newTransport sid st))) = Suc (length (objects st))"
  by (cases "truthy sid"; cases sid) (auto simp add: newTransport_explicit newTransport_generated)

text \<open>
  C3. With an explicit session id (a non-empty string: \<^verbatim>\<open>if (sessionId)\<close>), \<open>newTransport\<close>
  constructs a transport with no id generator and no initialisation callback, assigns the
  id to the transport's \<open>sessionId\<close> and registers the transport under that id before it
  returns. With no explicit id (none, or the empty string) it leaves the registry as it
  is: the new transport has the generator and the callback \<open>RegisterUnder\<close>, and the
  registry put is what that callback does, under the id the callback receives.
\<close>

theorem newTransport_registration:
  "(s \<noteq> [] \<longrightarrow>
      newTransport (Some s) st =
        (length (objects st),
         \<lparr>transports = (transports st)(s \<mapsto> length (objects st)),
          objects = objects st @
            [\<lparr>sessionIdGenerator = None, onsessioninitialized = None, sessionId = Some s,
              onclose = Some (DeleteEntryOf (length (objects st)))\<rparr>]\<rparr>)) \<and>
   (\<not> truthy sid \<longrightarrow>
      newTransport sid st =
        (length (objects st),
         \<lparr>transports = transports st,
          objects = objects st @
            [\<lparr>sessionIdGenerator = Some RandomUUID,
              onsessioninitialized = Some (RegisterUnder (length (objects st))),
              sessionId = None,
              onclose = Some (DeleteEntryOf (length (objects st)))\<rparr>]\<rparr>)) \<and>
   run_onsessioninitialized (RegisterUnder r) g st' = st'\<lparr>transports := (transports st')(g \<mapsto> r)\<rparr>"
  by (simp add: newTransport_explicit newTransport_generated run_onsessioninitialized_def)

theorem newTransport_registration_witness:
  "newTransport (Some ''123e4567-e89b-12d3-a456-426614174000'') new_McpServerMiddleware =
     (0,
      \<lparr>transports = [''123e4567-e89b-12d3-a456-426614174000'' \<mapsto> 0],
       objects =
         [\<lparr>sessionIdGenerator = None, onsessioninitialized = None,
           sessionId = Some ''123e4567-e89b-12d3-a456-426614174000'',
           onclose = Some (DeleteEntryOf 0)\<rparr>]\<rparr>) \<and>
   newTransport None new_McpServerMiddleware =
     (0,
      \<lparr>transports = Map.empty,
       objects =
         [\<lparr>sessionIdGenerator = Some RandomUUID, onsessioninitialized = Some (RegisterUnder 0),
           sessionId = None, onclose = Some (DeleteEntryOf 0)\<rparr>]\<rparr>)"
  using newTransport_registration [of "''123e4567-e89b-12d3-a456-426614174000''" new_McpServerMiddleware None]
  by (simp add: new_McpServerMiddleware_def)

lemma run_onclose_removes:
  "r < length (objects st) \<Longrightarrow> sessionId (objects st ! r) = Some s \<Longrightarrow> s \<noteq> [] \<Longrightarrow>
   run_onclose (DeleteEntryOf r) st = st\<lparr>transports := (transports st)(s := None)\<rparr>"
  by (simp add: run_onclose_def)

lemma newTransport_onclose:
  "newTransport sid st = (r, st1) \<Longrightarrow>
   r = length (objects st) \<and> r < length (objects st1) \<and>
   onclose (objects st1 ! r) = Some (DeleteEntryOf r)"
  by (cases "truthy sid"; cases sid)
    (auto simp add: newTransport_explicit newTransport_generated)

text \<open>
  C2. For the transport \<open>r\<close> that \<open>newTransport\<close> creates, in either mode: its \<open>onclose\<close>
  is the closure \<open>DeleteEntryOf r\<close>, and running that closure in any later state where the
  transport's session id is set to \<open>s\<close> leaves no entry under \<open>s\<close> (for the empty string,
  which the closure treats as unset, provided it is not a key, as in every state the
  middleware builds). Register-then-close: in the explicit mode the entry that
  \<open>newTransport\<close> made is gone after the closure ran; in the generated mode, once the
  transport has taken the id \<open>g\<close> and its initialisation callback has registered it, the
  entry is gone after the closure ran. The closure takes no argument, so what triggered
  the close (a teardown request or a disconnect) cannot change what it does.
\<close>

theorem close_removes_entry:
  assumes "newTransport sid st = (r, st1)"
  shows
    "onclose (objects st1 ! r) = Some (DeleteEntryOf r) \<and>
     (r < length (objects st2) \<and> sessionId (objects st2 ! r) = Some s \<and>
      (s = [] \<longrightarrow> transports st2 [] = None) \<longrightarrow>
        transports (run_onclose (DeleteEntryOf r) st2) s = None) \<and>
     (sid = Some s \<and> s \<noteq> [] \<longrightarrow>
        transports st1 s = Some r \<and> transports (run_onclose (DeleteEntryOf r) st1) s = None) \<and>
     (\<not> truthy sid \<and> g \<noteq> [] \<longrightarrow>
        onsessioninitialized (objects st1 ! r) = Some (RegisterUnder r) \<and>
        transports
          (run_onsessioninitialized (RegisterUnder r) g
             (update_object r (\<lambda>t. t\<lparr>sessionId := Some g\<rparr>) st1)) g = Some r \<and>
        transports
          (run_onclose (DeleteEntryOf r)
             (run_onsessioninitialized (RegisterUnder r) g
                (update_object r (\<lambda>t. t\<lparr>sessionId := Some g\<rparr>) st1))) g = None)"
proof (intro conjI impI)
  show "onclose (objects st1 ! r) = Some (DeleteEntryOf r)"
    using newTransport_onclose [OF assms] by blast
next
  assume "r < length (objects st2) \<and> sessionId (objects st2 ! r) = Some s \<and>
      (s = [] \<longrightarrow> transports st2 [] = None)"
  then show "transports (run_onclose (DeleteEntryOf r) st2) s = None"
    by (auto simp add: run_onclose_def)
next
  assume a: "sid = Some s \<and> s \<noteq> []"
  with assms show "transports st1 s = Some r"
    by (auto simp add: newTransport_explicit)
  from a assms show "transports (run_onclose (DeleteEntryOf r) st1) s = None"
    by (auto simp add: newTransport_explicit run_onclose_def)
next
  assume a: "\<not> truthy sid \<and> g \<noteq> []"
  with assms show "onsessioninitialized (objects st1 ! r) = Some (RegisterUnder r)"
    by (auto simp add: newTransport_generated)
  show "transports
          (run_onsessioninitialized (RegisterUnder r) g
             (update_object r (\<lambda>t. t\<lparr>sessionId := Some g\<rparr>) st1)) g = Some r"
    by (simp add: run_onsessioninitialized_def)
  from a assms show "transports
          (run_onclose (DeleteEntryOf r)
             (run_onsessioninitialized (RegisterUnder r) g
                (update_object r (\<lambda>t. t\<lparr>sessionId := Some g\<rparr>) st1))) g = None"
    by (auto simp add: newTransport_generated run_onsessioninitialized_def run_onclose_def
        update_object_def)
qed

theorem close_removes_entry_witness:
  "transports (snd (newTransport (Some ''123e4567-e89b-12d3-a456-426614174000'') new_McpServerMiddleware))
     ''123e4567-e89b-12d3-a456-426614174000'' = Some 0 \<and>
   transports
     (run_onclose (DeleteEntryOf 0)
        (snd (newTransport (Some ''123e4567-e89b-12d3-a456-426614174000'') new_McpServerMiddleware)))
     ''123e4567-e89b-12d3-a456-426614174000'' = None"
  using close_removes_entry [where sid = "Some ''123e4567-e89b-12d3-a456-426614174000''"
      and st = new_McpServerMiddleware and r = 0
      and ?st1.0 = "snd (newTransport (Some ''123e4567-e89b-12d3-a456-426614174000'') new_McpServerMiddleware)"
      and s = "''123e4567-e89b-12d3-a456-426614174000''"]
  by (simp add: newTransport_explicit new_McpServerMiddleware_def)







lemma consistent_run_onsessioninitialized:
  "registry_consistent st \<Longrightarrow> r < length (objects st) \<Longrightarrow>
   sessionId (objects st ! r) = Some g \<Longrightarrow>
   registry_consistent (run_onsessioninitialized (RegisterUnder r) g st)"
  by (auto simp add: run_onsessioninitialized_def registry_consistent_def)

lemma consistent_take_id:
  assumes "registry_consistent st" and "r < length (objects st)"
    and "sessionId (objects st ! r) = None"
  shows "registry_consistent (update_object r (\<lambda>t. t\<lparr>sessionId := Some g\<rparr>) st)"
  unfolding registry_consistent_def
proof (intro allI impI)
  fix s r'
  assume "transports (update_object r (\<lambda>t. t\<lparr>sessionId := Some g\<rparr>) st) s = Some r'"
  then have e: "transports st s = Some r'"
    by (simp add: update_object_def)
  then have old: "r' < length (objects st)" "sessionId (objects st ! r') = Some s"
    using assms(1) unfolding registry_consistent_def by blast+
  then have "r' \<noteq> r"
    using assms(3) by auto
  then show "r' < length (objects (update_object r (\<lambda>t. t\<lparr>sessionId := Some g\<rparr>) st)) \<and>
      sessionId (objects (update_object r (\<lambda>t. t\<lparr>sessionId := Some g\<rparr>) st) ! r') = Some s"
    using old by (simp add: update_object_def)
qed

lemma consistent_session_initialized:
  assumes "registry_consistent st" and "r < length (objects st)"
    and "sessionId (objects st ! r) = None"
  shows "registry_consistent
           (run_onsessioninitialized (RegisterUnder r) g
              (update_object r (\<lambda>t. t\<lparr>sessionId := Some g\<rparr>) st))"
proof (rule consistent_run_onsessioninitialized)
  show "registry_consistent (update_object r (\<lambda>t. t\<lparr>sessionId := Some g\<rparr>) st)"
    using assms by (rule consistent_take_id)
  show "r < length (objects (update_object r (\<lambda>t. t\<lparr>sessionId := Some g\<rparr>) st))"
    using assms(2) by (simp add: update_object_def)
  show "sessionId (objects (update_object r (\<lambda>t. t\<lparr>sessionId := Some g\<rparr>) st) ! r) = Some g"
    using assms(2) by (simp add: update_object_def)
qed






text \<open>
  The condition on \<^verbatim>\<open>handleRequest\<close> is needed as well. An SDK transport that handles an
  initialize message evaluates \<^verbatim>\<open>this.sessionId = this.sessionIdGenerator?.()\<close>; for a
  transport built without a generator (the explicit-id mode) that write clears the
  field. With this effect, a POST that carries a valid unregistered id and an initialize
  body leaves an entry whose transport has no \<open>sessionId\<close>, and its close closure will
  not remove the entry.
\<close>

lemma post_awaited_clearing_sessionId:
  "\<not> registry_consistent
       (snd (post_awaited (\<lambda>r b st. update_object r (\<lambda>t. t\<lparr>sessionId := None\<rparr>) st) (\<lambda>b. True)
          \<lparr>verb = POST,
           headers = \<lparr>own = [''mcp-session-id'' \<mapsto> HString ''123e4567-e89b-12d3-a456-426614174000''],
                      prototype = Object_prototype\<rparr>,
           body = JNull\<rparr>
          new_McpServerMiddleware))"
proof -
  let ?u = "''123e4567-e89b-12d3-a456-426614174000''"
  let ?req = "\<lparr>verb = POST,
      headers = \<lparr>own = [''mcp-session-id'' \<mapsto> HString ?u], prototype = Object_prototype\<rparr>,
      body = JNull\<rparr>"
  have v: "validUUID (Some ?u)"
    by code_simp
  have "post (\<lambda>b. True) ?req new_McpServerMiddleware =
      (Forwarded (fst (newTransport (Some ?u) new_McpServerMiddleware)) (Some (body ?req)),
       snd (newTransport (Some ?u) new_McpServerMiddleware))"
    using v
    by (simp add: post_def Let_def header_spec session_lookup_def get_property_def
        object_prototype_names_def new_McpServerMiddleware_def case_prod_beta)
  then show ?thesis
    by (simp add: post_awaited_def newTransport_explicit registry_consistent_def
        update_object_def new_McpServerMiddleware_def)
qed

text \<open>
  The empty string is never a key of the registry: no operation of the middleware
  registers it (the generator yields identifiers that are not empty).
\<close>

lemma empty_key_never_registered:
  assumes "transports st [] = None"
  shows "transports (snd (newTransport sid st)) [] = None"
    and "transports (snd (post isInit req st)) [] = None"
    and "transports (snd (getDelete req st)) [] = None"
    and "transports (run_onclose cb st) [] = None"
    and "g \<noteq> [] \<Longrightarrow> transports (run_onsessioninitialized icb g st) [] = None"
proof -
  show n: "transports (snd (newTransport sid st)) [] = None" for sid
    using assms
    by (cases "truthy sid"; cases sid) (auto simp add: newTransport_explicit newTransport_generated)
  show "transports (snd (post isInit req st)) [] = None"
    using assms n by (simp add: post_def Let_def case_prod_beta split: property.splits sum.splits)
  show "transports (snd (getDelete req st)) [] = None"
    using assms by (simp add: getDelete_def Let_def split: property.splits sum.splits)
  show "transports (run_onclose cb st) [] = None"
    using assms by (cases cb) (simp add: run_onclose_def split: option.splits)
  show "g \<noteq> [] \<Longrightarrow> transports (run_onsessioninitialized icb g st) [] = None"
    using assms by (cases icb) (simp add: run_onsessioninitialized_def)
qed

lemma post_resume:
  "header (Some (headers req)) ''mcp-session-id'' = Inr (VString s) \<Longrightarrow> s \<noteq> [] \<Longrightarrow>
   transports st s = Some r \<Longrightarrow>
   post isInit req st = (Forwarded r (Some (body req)), st)"
  by (simp add: post_def Let_def session_lookup_registered)

lemma post_fresh_initialize:
  "header (Some (headers req)) ''mcp-session-id'' = Inr (string_or_undefined sid) \<Longrightarrow> \<not> truthy sid \<Longrightarrow>
   isInit (body req) \<Longrightarrow>
   post isInit req st =
     (Forwarded (fst (newTransport sid st)) (Some (body req)), snd (newTransport sid st))"
  by (simp add: post_def Let_def session_lookup_falsy case_prod_beta)

lemma post_fresh_explicit:
  "header (Some (headers req)) ''mcp-session-id'' = Inr (VString s) \<Longrightarrow> transports st s = None \<Longrightarrow>
   validUUID (Some s) \<Longrightarrow>
   post isInit req st =
     (Forwarded (fst (newTransport (Some s) st)) (Some (body req)),
      snd (newTransport (Some s) st))"
  by (simp add: post_def Let_def session_lookup_unregistered validUUID_not_inherited
      case_prod_beta)

lemma post_reject:
  "header (Some (headers req)) ''mcp-session-id'' = Inr (string_or_undefined sid) \<Longrightarrow>
   session_lookup st sid = Undefined \<Longrightarrow>
   \<not> (\<not> truthy sid \<and> isInit (body req)) \<Longrightarrow> \<not> validUUID sid \<Longrightarrow>
   post isInit req st = (Responded 404 (Json no_valid_session), st)"
  by (auto simp add: post_def Let_def)

lemma post_inherited:
  "header (Some (headers req)) ''mcp-session-id'' = Inr (VString s) \<Longrightarrow> transports st s = None \<Longrightarrow>
   s \<in> set object_prototype_names \<Longrightarrow>
   post isInit req st = (Raised TypeError, st)"
  by (simp add: post_def Let_def session_lookup_inherited)

lemma validUUID_nonempty: "validUUID (Some s) \<Longrightarrow> s \<noteq> []"
  by (auto simp add: validUUID_def)

text \<open>
  C1. For a POST or GET request and the session id \<open>sid\<close> its header carries:
  \<^item> RESUME: when \<open>sid\<close> is present (a non-empty string; the empty string is never a
    registry key) and registered, the request is forwarded to the registered transport
    and the state is unchanged;
  \<^item> FRESH: when \<open>sid\<close> is absent and the body is an initialize message, or \<open>sid\<close> is
    present, unregistered and accepted by \<open>validUUID\<close>, \<open>newTransport\<close> creates a new
    transport (a reference that was not in the store) and the request is forwarded to it;
  \<^item> a session id that \<open>validUUID\<close> accepts and that is registered is RESUME.
\<close>

theorem post_decision_table:
  assumes "verb req = POST \<or> verb req = GET"
    and "header (Some (headers req)) ''mcp-session-id'' = Inr (string_or_undefined sid)"
  shows
    "(sid = Some s \<and> s \<noteq> [] \<and> transports st s = Some r \<longrightarrow>
        middleware isInit req st = Some (Forwarded r (Some (body req)), st)) \<and>
     ((sid = None \<and> isInit (body req)) \<or>
      (sid = Some s \<and> transports st s = None \<and> validUUID sid) \<longrightarrow>
        middleware isInit req st =
          Some (Forwarded (fst (newTransport sid st)) (Some (body req)),
                snd (newTransport sid st)) \<and>
        fst (newTransport sid st) = length (objects st) \<and>
        length (objects (snd (newTransport sid st))) = Suc (length (objects st))) \<and>
     (sid = Some s \<and> validUUID sid \<and> transports st s = Some r \<longrightarrow>
        middleware isInit req st = Some (Forwarded r (Some (body req)), st))"
proof -
  have h: "middleware isInit req st = Some (post isInit req st)"
    using assms(1) by (auto simp add: middleware_def)
  have resume: "sid = Some s \<and> s \<noteq> [] \<and> transports st s = Some r \<longrightarrow>
      middleware isInit req st = Some (Forwarded r (Some (body req)), st)"
    using assms(2) by (auto simp add: h post_resume)
  have fresh: "(sid = None \<and> isInit (body req)) \<or>
      (sid = Some s \<and> transports st s = None \<and> validUUID sid) \<longrightarrow>
        middleware isInit req st =
          Some (Forwarded (fst (newTransport sid st)) (Some (body req)),
                snd (newTransport sid st))"
    using assms(2) by (auto simp add: h post_fresh_initialize post_fresh_explicit)
  have valid: "sid = Some s \<and> validUUID sid \<and> transports st s = Some r \<longrightarrow>
      middleware isInit req st = Some (Forwarded r (Some (body req)), st)"
    using assms(2) by (auto simp add: h post_resume validUUID_nonempty)
  show ?thesis
    using resume fresh valid newTransport_fresh [of sid st] by blast
qed

theorem post_decision_table_witness:
  "middleware (\<lambda>b. False)
     \<lparr>verb = POST,
      headers = \<lparr>own = [''mcp-session-id'' \<mapsto> HString ''123e4567-e89b-12d3-a456-426614174000''], prototype = Object_prototype\<rparr>,
      body = JNull\<rparr>
     (snd (newTransport (Some ''123e4567-e89b-12d3-a456-426614174000'') new_McpServerMiddleware)) =
   Some (Forwarded 0 (Some JNull),
         snd (newTransport (Some ''123e4567-e89b-12d3-a456-426614174000'') new_McpServerMiddleware)) \<and>
   middleware (\<lambda>b. True) \<lparr>verb = GET, headers = \<lparr>own = Map.empty, prototype = Object_prototype\<rparr>, body = JNull\<rparr> new_McpServerMiddleware =
   Some (Forwarded 0 (Some JNull), snd (newTransport None new_McpServerMiddleware))"
proof -
  let ?u = "''123e4567-e89b-12d3-a456-426614174000''"
  let ?st = "snd (newTransport (Some ?u) new_McpServerMiddleware)"
  let ?req = "\<lparr>verb = POST, headers = \<lparr>own = [''mcp-session-id'' \<mapsto> HString ?u], prototype = Object_prototype\<rparr>, body = JNull\<rparr>"
  let ?get = "\<lparr>verb = GET, headers = \<lparr>own = Map.empty, prototype = Object_prototype\<rparr>, body = JNull\<rparr>"
  have v: "validUUID (Some ?u)"
    by code_simp
  have reg: "transports ?st ?u = Some 0"
    by (simp add: newTransport_explicit new_McpServerMiddleware_def)
  have "middleware (\<lambda>b. False) ?req ?st = Some (Forwarded 0 (Some JNull), ?st)"
    using post_decision_table [where req = ?req and sid = "Some ?u" and s = ?u and st = ?st
        and r = 0 and isInit = "\<lambda>b. False"] v reg
    by (simp add: header_spec string_of_def)
  moreover have
    "middleware (\<lambda>b. True) ?get new_McpServerMiddleware =
       Some (Forwarded 0 (Some JNull), snd (newTransport None new_McpServerMiddleware))"
    using post_decision_table [where req = ?get and sid = None and st = new_McpServerMiddleware
        and isInit = "\<lambda>b. True"]
    by (simp add: header_spec session_name_not_inherited new_McpServerMiddleware_def)
  ultimately show ?thesis by simp
qed

lemma post_rejects_unroutable:
  assumes "verb req = POST \<or> verb req = GET"
    and "header (Some (headers req)) ''mcp-session-id'' = Inr (string_or_undefined sid)"
    and "sid = None \<or>
         (\<exists>s. sid = Some s \<and> transports st s = None \<and> s \<notin> set object_prototype_names)"
    and "\<not> validUUID sid"
    and "\<not> isInit (body req)"
  shows "middleware isInit req st = Some (Responded 404 (Json no_valid_session), st)"
proof -
  have "session_lookup st sid = Undefined"
    using assms(3) by (auto simp add: session_lookup_def get_property_def)
  then have "post isInit req st = (Responded 404 (Json no_valid_session), st)"
    using assms(2,4,5) by (simp add: post_reject)
  then show ?thesis
    using assms(1) by (auto simp add: middleware_def)
qed

lemma getDelete_forward:
  "header (Some (headers req)) ''mcp-session-id'' = Inr (VString s) \<Longrightarrow> s \<noteq> [] \<Longrightarrow>
   transports st s = Some r \<Longrightarrow>
   getDelete req st = (Forwarded r None, st)"
  by (simp add: getDelete_def Let_def session_lookup_registered)

lemma getDelete_reject:
  "header (Some (headers req)) ''mcp-session-id'' = Inr (string_or_undefined sid) \<Longrightarrow>
   sid = None \<or> sid = Some [] \<or>
     (\<exists>s. sid = Some s \<and> transports st s = None \<and> s \<notin> set object_prototype_names) \<Longrightarrow>
   getDelete req st =
     (Responded 400
        (Text (''Invalid or missing session ID: '' @
           (case sid of None \<Rightarrow> ''none'' | Some s \<Rightarrow> if s = [] then ''none'' else take 8 s))),
      st)"
  by (auto simp add: getDelete_def Let_def session_lookup_def get_property_def)

lemma getDelete_scenario_1234:
  "middleware isInit
     \<lparr>verb = DELETE, headers = \<lparr>own = [''mcp-session-id'' \<mapsto> HString ''1234''], prototype = Object_prototype\<rparr>, body = b\<rparr>
     new_McpServerMiddleware =
   Some (Responded 400 (Text ''Invalid or missing session ID: 1234''), new_McpServerMiddleware)"
  by (simp add: middleware_def getDelete_def Let_def header_spec string_of_def session_lookup_def get_property_def
      new_McpServerMiddleware_def object_prototype_names_def)

text \<open>
  C4. A POST or GET request that is neither RESUME nor FRESH is answered with status 404
  and the fixed error envelope, and the state is unchanged: \<open>post_rejects_unroutable\<close>
  above proves it for every session id that is not the name of a member of
  \<^verbatim>\<open>Object.prototype\<close>. For such a name the read \<^verbatim>\<open>this.transports[sessionId]\<close> is truthy, the
  handler takes the first branch and calls \<^verbatim>\<open>handleRequest\<close> on a value that has none. At
  the request below (session id \<open>constructor\<close>, not registered, not accepted by
  \<open>validUUID\<close>, body not an initialize message, empty registry) the handler throws and
  sends no 404.
\<close>

theorem post_inherited_name_raises:
  "header (Some \<lparr>own = [''mcp-session-id'' \<mapsto> HString ''constructor''], prototype = Object_prototype\<rparr>)
     ''mcp-session-id'' = Inr (VString ''constructor'') \<and>
   transports new_McpServerMiddleware ''constructor'' = None \<and>
   \<not> validUUID (Some ''constructor'') \<and>
   middleware (\<lambda>b. False)
     \<lparr>verb = POST, headers = \<lparr>own = [''mcp-session-id'' \<mapsto> HString ''constructor''], prototype = Object_prototype\<rparr>, body = JNull\<rparr>
     new_McpServerMiddleware =
   Some (Raised TypeError, new_McpServerMiddleware)"
proof -
  have "\<not> validUUID (Some ''constructor'')"
    by code_simp
  then show ?thesis
    by (simp add: middleware_def post_def Let_def header_spec string_of_def session_lookup_def get_property_def
      new_McpServerMiddleware_def object_prototype_names_def)
qed

text \<open>
  C5. A DELETE request with a present and registered session id is forwarded to the
  registered transport (\<open>getDelete_forward\<close>); otherwise the answer is status 400 with the
  text \<open>Invalid or missing session ID: \<close> followed by the first 8 characters of the id, or
  by \<open>none\<close> when the header carries no id or an empty one (\<open>getDelete_reject\<close>, for every
  id that is not the name of a member of \<^verbatim>\<open>Object.prototype\<close>; \<open>getDelete_scenario_1234\<close> is
  the specification's scenario). At the request below (session id \<open>constructor\<close>, not
  registered, empty registry) the handler throws a \<^verbatim>\<open>TypeError\<close> and sends no 400.
\<close>

theorem getDelete_inherited_name_raises:
  "header (Some \<lparr>own = [''mcp-session-id'' \<mapsto> HString ''constructor''], prototype = Object_prototype\<rparr>)
     ''mcp-session-id'' = Inr (VString ''constructor'') \<and>
   transports new_McpServerMiddleware ''constructor'' = None \<and>
   middleware (\<lambda>b. False)
     \<lparr>verb = DELETE, headers = \<lparr>own = [''mcp-session-id'' \<mapsto> HString ''constructor''], prototype = Object_prototype\<rparr>, body = JNull\<rparr>
     new_McpServerMiddleware =
   Some (Raised TypeError, new_McpServerMiddleware)"
  by (simp add: middleware_def getDelete_def Let_def header_spec string_of_def session_lookup_def get_property_def
      new_McpServerMiddleware_def object_prototype_names_def)

subsection \<open>The game store\<close>

lemma hex_value_hex_digits_all:
  "list_all (\<lambda>k. hex_value (hex_digits ! k) = Some k) [0..<16]"
  by code_simp

lemma hex_value_hex_digits: "k < 16 \<Longrightarrow> hex_value (hex_digits ! k) = Some k"
  using hex_value_hex_digits_all unfolding list_all_iff by simp

lemma hex4_low:
  assumes "n < 32"
  shows "hex4 (CHR ''0'') (CHR ''0'') (hex_digits ! (n div 16)) (hex_digits ! (n mod 16)) = Some n"
proof -
  have "n div 16 < 16" using assms by simp
  then have a: "hex_value (hex_digits ! (n div 16)) = Some (n div 16)"
    by (rule hex_value_hex_digits)
  have b: "hex_value (hex_digits ! (n mod 16)) = Some (n mod 16)"
    by (rule hex_value_hex_digits) simp
  have z: "hex_value (CHR ''0'') = Some 0"
    by (simp add: hex_value_def)
  show ?thesis
    by (simp add: hex4_def a b z)
qed

lemma char_code_eq: "(of_char c :: nat) = of_char d \<Longrightarrow> c = d"
  by (simp only: of_char_eq_iff)

lemma unquote_quote_unit:
  "unquote (quote_unit c @ rest) = map_option (apfst ((#) c)) (unquote rest)"
proof -
  consider
    (short) "c \<in> {CHR 0x08, CHR 0x09, CHR 0x0A, CHR 0x0C, CHR 0x0D, CHR 0x22, CHR 0x5C}"
    | (low) "c \<notin> {CHR 0x08, CHR 0x09, CHR 0x0A, CHR 0x0C, CHR 0x0D, CHR 0x22, CHR 0x5C}"
        "(of_char c :: nat) < 0x20"
    | (plain) "c \<notin> {CHR 0x08, CHR 0x09, CHR 0x0A, CHR 0x0C, CHR 0x0D, CHR 0x22, CHR 0x5C}"
        "\<not> (of_char c :: nat) < 0x20"
    by blast
  then show ?thesis
  proof cases
    case short
    then show ?thesis
      by (auto simp add: quote_unit_def unescape_def)
  next
    case low
    have "hex4 (CHR ''0'') (CHR ''0'') (hex_digits ! (of_char c div 16))
            (hex_digits ! (of_char c mod 16)) = Some (of_char c)"
      using low(2) by (intro hex4_low) simp
    then show ?thesis
      using low by (simp add: quote_unit_def)
  next
    case plain
    then show ?thesis
      by (simp add: quote_unit_def)
  qed
qed

lemma unquote_quoted:
  "unquote (concat (map quote_unit s) @ CHR 0x22 # rest) = Some (s, rest)"
  by (induction s) (simp_all add: unquote_quote_unit del: unquote.simps(2), simp)

lemma JSON_parse_stringify: "JSON_parse (JSON_stringify s) = Some s"
  using unquote_quoted [of s "[]"]
  by (simp add: JSON_parse_def JSON_stringify_def whitespace_def)

lemma writeFile_entry:
  "writeFile p d fs = Inr fs' \<Longrightarrow> entries fs' p = Some (File d)"
  by (auto simp add: writeFile_def split: if_splits)

lemma saveGame_entry:
  assumes "saveGame fen sid game fs = Inr fs'"
  shows "entries fs' (game_path sid) = Some (File (JSON_stringify (fen game)))"
proof -
  from assms obtain fs1 where "writeFile (game_path sid) (JSON_stringify (fen game)) fs1 = Inr fs'"
    by (auto simp add: saveGame_def split: sum.splits)
  then show ?thesis by (rule writeFile_entry)
qed

lemma loadGame_saved:
  assumes "entries fs (game_path sid) = Some (File (JSON_stringify f))" and "truthy sid"
  shows "loadGame Chess sid fs =
           (case Chess f of None \<Rightarrow> Inl ChessError | Some g \<Rightarrow> Inr (Some g))"
  using assms by (simp add: loadGame_def existsSync_def readFile_def JSON_parse_stringify)

lemma loadGame_falsy: "\<not> truthy sid \<Longrightarrow> loadGame Chess sid fs = Inr None"
  by (simp add: loadGame_def)

text \<open>
  C9, amended. After \<open>saveGame\<close> has completed for a session id and a game: for a truthy
  id (a non-empty string) \<open>loadGame\<close> returns exactly \<^verbatim>\<open>new Chess(game.fen())\<close>, so the
  outcome depends on the game's FEN only and nothing else of the game (its move history)
  comes back; provided the library's constructor accepts every FEN that \<open>fen\<close> produces
  and returns a game with that FEN, \<open>loadGame\<close> returns a game whose FEN is that of the
  saved game; for an id that is none or the empty string \<open>loadGame\<close> returns none, even
  though the save under that id took place.
\<close>

theorem load_after_save:
  assumes "saveGame fen sid game fs = Inr fs'"
  shows
    "(truthy sid \<longrightarrow>
        loadGame Chess sid fs' =
          (case Chess (fen game) of None \<Rightarrow> Inl ChessError | Some g \<Rightarrow> Inr (Some g))) \<and>
     (truthy sid \<and> (\<forall>g. \<exists>g'. Chess (fen g) = Some g' \<and> fen g' = fen g) \<longrightarrow>
        (\<exists>g'. loadGame Chess sid fs' = Inr (Some g') \<and> fen g' = fen game)) \<and>
     (\<not> truthy sid \<longrightarrow> loadGame Chess sid fs' = Inr None)"
proof (intro conjI impI)
  assume "truthy sid"
  then show "loadGame Chess sid fs' =
      (case Chess (fen game) of None \<Rightarrow> Inl ChessError | Some g \<Rightarrow> Inr (Some g))"
    using saveGame_entry [OF assms] by (simp add: loadGame_saved)
next
  assume a: "truthy sid \<and> (\<forall>g. \<exists>g'. Chess (fen g) = Some g' \<and> fen g' = fen g)"
  then obtain g' where g': "Chess (fen game) = Some g'" "fen g' = fen game"
    by blast
  have "loadGame Chess sid fs' = Inr (Some g')"
    using a g'(1) saveGame_entry [OF assms] by (simp add: loadGame_saved)
  with g'(2) show "\<exists>g'. loadGame Chess sid fs' = Inr (Some g') \<and> fen g' = fen game"
    by blast
next
  assume "\<not> truthy sid"
  then show "loadGame Chess sid fs' = Inr None"
    by (rule loadGame_falsy)
qed

theorem load_after_save_witness:
  "saveGame id (Some ''abc'') ''rnbqkbnr/pppppppp/8/8/8/8/PPPPPPPP/RNBQKBNR w KQkq - 0 1''
     \<lparr>entries = Map.empty, refused = {}\<rparr> =
     Inr \<lparr>entries =
            [''./games'' \<mapsto> Directory,
             ''./games/abc.json'' \<mapsto>
               File (JSON_stringify ''rnbqkbnr/pppppppp/8/8/8/8/PPPPPPPP/RNBQKBNR w KQkq - 0 1'')],
          refused = {}\<rparr> \<and>
   loadGame Some (Some ''abc'')
     \<lparr>entries =
        [''./games'' \<mapsto> Directory,
         ''./games/abc.json'' \<mapsto>
           File (JSON_stringify ''rnbqkbnr/pppppppp/8/8/8/8/PPPPPPPP/RNBQKBNR w KQkq - 0 1'')],
      refused = {}\<rparr> =
     Inr (Some ''rnbqkbnr/pppppppp/8/8/8/8/PPPPPPPP/RNBQKBNR w KQkq - 0 1'')"
proof -
  let ?f = "''rnbqkbnr/pppppppp/8/8/8/8/PPPPPPPP/RNBQKBNR w KQkq - 0 1''"
  let ?fs' = "\<lparr>entries = [''./games'' \<mapsto> Directory, ''./games/abc.json'' \<mapsto> File (JSON_stringify ?f)],
      refused = {}\<rparr>"
  have save: "saveGame id (Some ''abc'') ?f \<lparr>entries = Map.empty, refused = {}\<rparr> = Inr ?fs'"
    by (simp add: saveGame_def existsSync_def mkdir_def writeFile_def game_path_def)
  show ?thesis
    using save load_after_save [OF save, where Chess = Some] by simp
qed

text \<open>
  The condition on the library is needed: a constructor that rejects the saved FEN makes
  \<open>loadGame\<close> fail, and one that returns a game with another FEN makes it return that game.
\<close>

lemma load_after_save_needs_library:
  assumes "saveGame fen sid game fs = Inr fs'" and "truthy sid"
  shows "loadGame (\<lambda>f. None) sid fs' = (Inl ChessError :: store_error + 'g option)"
    and "loadGame (\<lambda>f. Some other) sid fs' = Inr (Some other)"
  using saveGame_entry [OF assms(1)] assms(2) by (simp_all add: loadGame_saved)

text \<open>
  Stated for every session id that is not none, the property fails at the empty string:
  the save writes \<^verbatim>\<open>./games/.json\<close> and the load returns none.
\<close>

theorem load_after_save_empty_id:
  "saveGame id (Some []) ''rnbqkbnr/pppppppp/8/8/8/8/PPPPPPPP/RNBQKBNR w KQkq - 0 1''
     \<lparr>entries = Map.empty, refused = {}\<rparr> =
     Inr \<lparr>entries =
            [''./games'' \<mapsto> Directory,
             ''./games/.json'' \<mapsto>
               File (JSON_stringify ''rnbqkbnr/pppppppp/8/8/8/8/PPPPPPPP/RNBQKBNR w KQkq - 0 1'')],
          refused = {}\<rparr> \<and>
   loadGame Some (Some [])
     \<lparr>entries =
        [''./games'' \<mapsto> Directory,
         ''./games/.json'' \<mapsto>
           File (JSON_stringify ''rnbqkbnr/pppppppp/8/8/8/8/PPPPPPPP/RNBQKBNR w KQkq - 0 1'')],
      refused = {}\<rparr> =
     (Inr None :: store_error + string option)"
  by (simp add: saveGame_def existsSync_def mkdir_def writeFile_def game_path_def loadGame_def)

end
